theory Spec2Isabelle
  imports Main
begin

section \<open>Python values and exceptions\<close>

text \<open>
  The module \<^verbatim>\<open>settings_parser/util.py\<close> is a set of helpers around three stateful
  facilities of the Python runtime: the attribute tables of objects, the
  \<^verbatim>\<open>warnings\<close> and \<^verbatim>\<open>logging\<close> modules, and the file system. Each facility is
  modelled by an explicit state that the helpers receive and return.

  Values that the helpers only pass along (exception arguments, log messages) are
  \<open>pyval\<close>; results of user code are left polymorphic.
\<close>

datatype pyval = PNone | PInt int | PStr string

text \<open>
  An exception instance: the name of its class, its \<^verbatim>\<open>args\<close> tuple, and whether the
  class derives from \<^verbatim>\<open>Exception\<close> (what \<^verbatim>\<open>except Exception\<close> tests;
  \<^verbatim>\<open>KeyboardInterrupt\<close> and \<^verbatim>\<open>SystemExit\<close> do not).
\<close>

record exc =
  exc_type :: string
  exc_args :: "pyval list"
  exc_is_Exception :: bool

text \<open>\<^verbatim>\<open>class ConfigError(SyntaxError)\<close> and the error of \<^verbatim>\<open>()[0]\<close>.\<close>

definition ConfigError :: "pyval list \<Rightarrow> exc" where
  "ConfigError as = \<lparr>exc_type = ''ConfigError'', exc_args = as, exc_is_Exception = True\<rparr>"

definition IndexError_tuple :: exc where
  "IndexError_tuple =
     \<lparr>exc_type = ''IndexError'', exc_args = [PStr ''tuple index out of range''],
      exc_is_Exception = True\<rparr>"

definition AttributeError :: "string \<Rightarrow> exc" where
  "AttributeError a =
     \<lparr>exc_type = ''AttributeError'', exc_args = [PStr a], exc_is_Exception = True\<rparr>"

section \<open>The memoizing accessor \<^verbatim>\<open>cached_property\<close>\<close>

text \<open>
  Objects live in a heap that maps an address to the object's attribute table
  (\<^verbatim>\<open>__dict__\<close>). A computation handed to \<^verbatim>\<open>cached_property\<close> is a Python
  function of one argument: it has a \<^verbatim>\<open>__name__\<close>, a \<^verbatim>\<open>__doc__\<close>, and a body
  that receives the address of the instance, may read and change any object, and
  either returns a value or raises.
\<close>

type_synonym addr = nat
type_synonym 'v attrs = "string \<rightharpoonup> 'v"
type_synonym 'v heap = "addr \<Rightarrow> 'v attrs"

record 'v pymethod =
  m_name :: string
  m_doc :: "string option"
  m_call :: "addr \<Rightarrow> 'v heap \<Rightarrow> (exc + 'v) \<times> 'v heap"

record 'v cached_property =
  cp_method :: "'v pymethod"
  name :: string
  doc :: "string option"

text \<open>
  \<^verbatim>\<open>__init__(self, method, name=None)\<close>: \<^verbatim>\<open>name or method.__name__\<close> falls back to
  the method's name for \<^verbatim>\<open>None\<close> and for the empty string.
\<close>

definition cached_property_init :: "'v pymethod \<Rightarrow> string option \<Rightarrow> 'v cached_property" where
  "cached_property_init meth nm =
     \<lparr>cp_method = meth,
      name = (case nm of None \<Rightarrow> m_name meth
              | Some n \<Rightarrow> if n = [] then m_name meth else n),
      doc = m_doc meth\<rparr>"

text \<open>
  The state seen by attribute access: the heap, and a log of the invocations of
  computations made by accessors (the name of the computation and its argument), kept
  so that "invoked exactly once" can be stated.
\<close>

record 'v objstate =
  heap :: "'v heap"
  calls :: "(string \<times> addr) list"

datatype 'v got = Accessor "'v cached_property" | Value 'v

text \<open>
  \<^verbatim>\<open>__get__(self, inst, cls)\<close>. With \<^verbatim>\<open>inst is None\<close> the accessor itself is
  returned. Otherwise the method is called on the instance; if it raises, the error
  propagates before \<^verbatim>\<open>setattr\<close>; if it returns, \<^verbatim>\<open>setattr(inst, self.name, result)\<close>
  writes the instance's attribute table as the method left it.
\<close>

definition cached_property_get ::
  "'v cached_property \<Rightarrow> addr option \<Rightarrow> 'v objstate \<Rightarrow> (exc + 'v got) \<times> 'v objstate" where
  "cached_property_get self inst s =
     (case inst of
        None \<Rightarrow> (Inr (Accessor self), s)
      | Some i \<Rightarrow>
          (case m_call (cp_method self) i (heap s) of
             (Inl e, h) \<Rightarrow>
               (Inl e, \<lparr>heap = h, calls = calls s @ [(m_name (cp_method self), i)]\<rparr>)
           | (Inr result, h) \<Rightarrow>
               (Inr (Value result),
                \<lparr>heap = h(i := (h i)(name self \<mapsto> result)),
                 calls = calls s @ [(m_name (cp_method self), i)]\<rparr>)))"

text \<open>
  Attribute lookup as Python performs it for an ordinary class whose namespace binds
  names to plain values or to \<^verbatim>\<open>cached_property\<close> objects. The accessor defines only
  \<^verbatim>\<open>__get__\<close> (a non-data descriptor), so on an instance the instance's own table is
  consulted first and the class namespace second; on the class, the descriptor is
  called with no instance.
\<close>

datatype 'v class_attr = Descriptor "'v cached_property" | Plain 'v

type_synonym 'v pyclass = "string \<rightharpoonup> 'v class_attr"

definition getattr_instance ::
  "'v pyclass \<Rightarrow> addr \<Rightarrow> string \<Rightarrow> 'v objstate \<Rightarrow> (exc + 'v got) \<times> 'v objstate" where
  "getattr_instance cls i a s =
     (case heap s i a of
        Some v \<Rightarrow> (Inr (Value v), s)
      | None \<Rightarrow>
          (case cls a of
             Some (Descriptor cp) \<Rightarrow> cached_property_get cp (Some i) s
           | Some (Plain v) \<Rightarrow> (Inr (Value v), s)
           | None \<Rightarrow> (Inl (AttributeError a), s)))"

definition getattr_class ::
  "'v pyclass \<Rightarrow> string \<Rightarrow> 'v objstate \<Rightarrow> (exc + 'v got) \<times> 'v objstate" where
  "getattr_class cls a s =
     (case cls a of
        Some (Descriptor cp) \<Rightarrow> cached_property_get cp None s
      | Some (Plain v) \<Rightarrow> (Inr (Value v), s)
      | None \<Rightarrow> (Inl (AttributeError a), s))"

text \<open>
  The concrete scenario of the specification: a computation returning 42, wrapped
  under the name \<^verbatim>\<open>answer\<close>, on an instance at address 0 with an empty table.
\<close>

definition answer_method :: "int pymethod" where
  "answer_method = \<lparr>m_name = ''answer'', m_doc = None, m_call = (\<lambda>i h. (Inr 42, h))\<rparr>"

definition answer_class :: "int pyclass" where
  "answer_class = [''answer'' \<mapsto> Descriptor (cached_property_init answer_method None)]"

definition fresh_objects :: "int objstate" where
  "fresh_objects = \<lparr>heap = (\<lambda>_. Map.empty), calls = []\<rparr>"

section \<open>Warnings and logging\<close>

text \<open>
  A warning as \<^verbatim>\<open>warnings\<close> records it: the name of its category (a subclass of
  \<^verbatim>\<open>Warning\<close>), the text of its message, and the file and line it is attributed to.
\<close>

record warning =
  category :: string
  message :: string
  filename :: string
  lineno :: int

text \<open>\<^verbatim>\<open>class ConfigWarning(UserWarning)\<close>, as a category.\<close>

definition ConfigWarning :: string where
  "ConfigWarning = ''ConfigWarning''"

text \<open>
  An entry of \<^verbatim>\<open>warnings.filters\<close>: an action and the test the entry makes on a
  warning (its message and module patterns, category and line).
\<close>

datatype action = Default | Error | Ignore | Always | Module | Once

record wfilter =
  f_action :: action
  f_matches :: "warning \<Rightarrow> bool"

text \<open>A call received by a logger: the logger's name, the severity, the message.\<close>

record log_record =
  lr_logger :: string
  lr_level :: int
  lr_msg :: pyval

definition CRITICAL :: int where "CRITICAL = 50"
definition ERROR :: int where "ERROR = 40"
definition WARNING :: int where "WARNING = 30"
definition NOTSET :: int where "NOTSET = 0"

text \<open>
  The process-wide state of the two modules:
  \<^item> \<open>filters\<close>: the filter list;
  \<^item> \<open>registry\<close>: the entries set in the \<^verbatim>\<open>__warningregistry__\<close> tables of the
    modules, each with the file of its module: (file, text, category, line);
  \<^item> \<open>onceregistry\<close>: the (text, category) entries of \<^verbatim>\<open>warnings.onceregistry\<close>;
  \<^item> \<open>capture\<close>: the list that the display hook appends to while a
    \<^verbatim>\<open>catch_warnings(record=True)\<close> block is active, \<open>None\<close> when the hook is the
    default one;
  \<^item> \<open>shown\<close>: the warnings handed to the default hook;
  \<^item> \<open>issued\<close>: every call of \<^verbatim>\<open>warnings.warn\<close>, in order, whatever became of it;
  \<^item> \<open>logs\<close>: every call received by a logger, in order.
\<close>

record world =
  filters :: "wfilter list"
  registry :: "(string \<times> string \<times> string \<times> int) list"
  onceregistry :: "(string \<times> string) list"
  capture :: "warning list option"
  shown :: "warning list"
  issued :: "warning list"
  logs :: "log_record list"

text \<open>
  The first matching filter decides; with no match the module's default action
  applies.
\<close>

fun resolve :: "wfilter list \<Rightarrow> warning \<Rightarrow> action" where
  "resolve [] w = Default"
| "resolve (f # fs) w = (if f_matches f w then f_action f else resolve fs w)"

definition warning_exc :: "warning \<Rightarrow> exc" where
  "warning_exc w =
     \<lparr>exc_type = category w, exc_args = [PStr (message w)], exc_is_Exception = True\<rparr>"

definition deliver :: "warning \<Rightarrow> world \<Rightarrow> world" where
  "deliver w s =
     (case capture s of
        Some l \<Rightarrow> s\<lparr>capture := Some (l @ [w])\<rparr>
      | None \<Rightarrow> s\<lparr>shown := shown s @ [w]\<rparr>)"

text \<open>
  \<^verbatim>\<open>warnings.warn\<close>, through \<^verbatim>\<open>warn_explicit\<close>. A warning whose (text, category,
  line) is set in the registry of its module returns at once. Otherwise the filters
  decide: \<^verbatim>\<open>ignore\<close> drops it, \<^verbatim>\<open>error\<close> raises it as an exception, \<^verbatim>\<open>always\<close> hands
  it to the hook; \<^verbatim>\<open>default\<close> sets the registry entry and hands it to the hook;
  \<^verbatim>\<open>module\<close> sets the entry, and hands it to the hook unless the entry with line 0 is
  set, which it sets then; \<^verbatim>\<open>once\<close> sets the entry, and hands it to the hook unless
  (text, category) is in the once-registry, to which it adds it then.
\<close>

definition warn :: "warning \<Rightarrow> world \<Rightarrow> exc option \<times> world" where
  "warn w s =
     (let s1 = s\<lparr>issued := issued s @ [w]\<rparr>;
          key = (filename w, message w, category w, lineno w);
          altkey = (filename w, message w, category w, 0);
          oncekey = (message w, category w)
      in if key \<in> set (registry s) then (None, s1)
         else case resolve (filters s) w of
           Ignore \<Rightarrow> (None, s1)
         | Error \<Rightarrow> (Some (warning_exc w), s1)
         | Once \<Rightarrow>
             (let s2 = s1\<lparr>registry := key # registry s1\<rparr>
              in if oncekey \<in> set (onceregistry s2) then (None, s2)
                 else (None, deliver w (s2\<lparr>onceregistry := oncekey # onceregistry s2\<rparr>)))
         | Always \<Rightarrow> (None, deliver w s1)
         | Module \<Rightarrow>
             (let s2 = s1\<lparr>registry := key # registry s1\<rparr>
              in if altkey \<in> set (registry s2) then (None, s2)
                 else (None, deliver w (s2\<lparr>registry := altkey # registry s2\<rparr>)))
         | Default \<Rightarrow> (None, deliver w (s1\<lparr>registry := key # registry s1\<rparr>)))"

text \<open>
  \<^verbatim>\<open>_filters_mutated()\<close> advances the version of the filter list, and
  \<^verbatim>\<open>warn_explicit\<close> empties the registry of a module whose version is not the current
  one before it reads it: every registry is empty at its first use after the call.
  The once-registry is not touched.
\<close>

definition filters_mutated :: "world \<Rightarrow> world" where
  "filters_mutated s = s\<lparr>registry := []\<rparr>"

text \<open>
  \<^verbatim>\<open>catch_warnings(record=True)\<close>: entering replaces the filter list by a copy of
  itself and the hook by one that appends to a new list; leaving puts back the filter
  list and the hook that were in place on entry. \<^verbatim>\<open>simplefilter(action)\<close> puts a
  filter that matches every warning in front of the list. Each of the three calls
  \<^verbatim>\<open>_filters_mutated()\<close>.
\<close>

definition catch_warnings_enter :: "world \<Rightarrow> world" where
  "catch_warnings_enter s = filters_mutated (s\<lparr>capture := Some []\<rparr>)"

definition catch_warnings_exit :: "world \<Rightarrow> world \<Rightarrow> world" where
  "catch_warnings_exit saved s =
     filters_mutated (s\<lparr>filters := filters saved, capture := capture saved\<rparr>)"

definition simplefilter :: "action \<Rightarrow> world \<Rightarrow> world" where
  "simplefilter a s =
     filters_mutated (s\<lparr>filters := \<lparr>f_action = a, f_matches = (\<lambda>w. True)\<rparr> # filters s\<rparr>)"

definition recorded :: "world \<Rightarrow> warning list" where
  "recorded s = (case capture s of Some l \<Rightarrow> l | None \<Rightarrow> [])"

text \<open>\<^verbatim>\<open>logging.getLogger(name).error(msg)\<close> and \<^verbatim>\<open>.warning(msg)\<close>.\<close>

definition log_call :: "string \<Rightarrow> int \<Rightarrow> pyval \<Rightarrow> world \<Rightarrow> world" where
  "log_call lg lvl m s =
     s\<lparr>logs := logs s @ [\<lparr>lr_logger = lg, lr_level = lvl, lr_msg = m\<rparr>]\<rparr>"

section \<open>Text helpers\<close>

text \<open>
  \<^verbatim>\<open>os.path.basename\<close> (POSIX): what follows the last slash. \<^verbatim>\<open>str\<close> of an integer:
  its decimal digits, with a minus sign when negative.
\<close>

definition basename :: "string \<Rightarrow> string" where
  "basename p = rev (takeWhile (\<lambda>c. c \<noteq> CHR ''/'') (rev p))"

definition digit_char :: "nat \<Rightarrow> char" where
  "digit_char d = ''0123456789'' ! d"

fun digits :: "nat \<Rightarrow> string" where
  "digits n = (if n < 10 then [digit_char n] else digits (n div 10) @ [digit_char (n mod 10)])"

declare digits.simps [simp del]

definition str_int :: "int \<Rightarrow> string" where
  "str_int i = (if i < 0 then CHR ''-'' # digits (nat (- i)) else digits (nat i))"

section \<open>The diagnostics-capturing wrapper \<^verbatim>\<open>log_exceptions_warnings\<close>\<close>

text \<open>
  A decorated function: its \<^verbatim>\<open>__module__\<close>, and its body, which receives the
  arguments, may do anything to the state of \<^verbatim>\<open>warnings\<close> and \<^verbatim>\<open>logging\<close>, and
  either returns a value or raises.
\<close>

record ('a, 'r) pyfunction =
  fn_module :: string
  fn_call :: "'a \<Rightarrow> world \<Rightarrow> (exc + 'r) \<times> world"

text \<open>The message composed for a captured warning (lines 80 to 82).\<close>

definition compose_message :: "warning \<Rightarrow> string" where
  "compose_message w =
     category w @ '': '' @ [CHR 0x22] @ message w @ [CHR 0x22] @ '' in ''
       @ basename (filename w) @ '', line: '' @ str_int (lineno w) @ ''.''"

text \<open>
  \<^verbatim>\<open>warnings.warn(msg, warn.category)\<close> on line 85 issues a warning attributed to that
  line of this module. The file name it carries is the path under which the module is
  installed, the parameter \<open>here\<close> of what follows.
\<close>

definition reissued :: "string \<Rightarrow> warning \<Rightarrow> warning" where
  "reissued here w =
     \<lparr>category = category w, message = compose_message w, filename = here, lineno = 85\<rparr>"


text \<open>
  The loop over \<^verbatim>\<open>warn_list\<close> (lines 78 to 85): log the composed message at warning
  severity, then issue it again. An exception raised by \<^verbatim>\<open>warnings.warn\<close> leaves the
  loop.
\<close>

fun log_and_reissue ::
  "string \<Rightarrow> string \<Rightarrow> warning list \<Rightarrow> world \<Rightarrow> exc option \<times> world" where
  "log_and_reissue here m [] s = (None, s)"
| "log_and_reissue here m (w # ws) s =
     (case warn (reissued here w) (log_call m WARNING (PStr (compose_message w)) s) of
        (Some e, s') \<Rightarrow> (Some e, s')
      | (None, s') \<Rightarrow> log_and_reissue here m ws s')"

text \<open>The state in which the wrapped function runs (lines 70 to 72).\<close>

definition capture_scope :: "world \<Rightarrow> world" where
  "capture_scope s = simplefilter Always (catch_warnings_enter s)"

text \<open>
  \<^verbatim>\<open>wrapper(*args, **kwargs)\<close>. The \<^verbatim>\<open>with\<close> block is left, and the filters and hook
  restored, before the \<^verbatim>\<open>except\<close> clause or the loop runs. \<^verbatim>\<open>except Exception\<close>
  takes only exceptions derived from \<^verbatim>\<open>Exception\<close>; there \<^verbatim>\<open>exc.args[0]\<close> raises an
  \<^verbatim>\<open>IndexError\<close> when \<^verbatim>\<open>args\<close> is empty, and otherwise the first argument is logged
  at error severity and the exception raised again.
\<close>

definition wrapper ::
  "string \<Rightarrow> ('a, 'r) pyfunction \<Rightarrow> 'a \<Rightarrow> world \<Rightarrow> (exc + 'r) \<times> world" where
  "wrapper here func args s =
     (case fn_call func args (capture_scope s) of
        (Inl e, s1) \<Rightarrow>
          (let s2 = catch_warnings_exit s s1
           in if exc_is_Exception e
              then (case exc_args e of
                      [] \<Rightarrow> (Inl IndexError_tuple, s2)
                    | a # _ \<Rightarrow> (Inl e, log_call (fn_module func) ERROR a s2))
              else (Inl e, s2))
      | (Inr ret, s1) \<Rightarrow>
          (let warn_list = recorded s1;
               s2 = catch_warnings_exit s s1
           in case log_and_reissue here (fn_module func) warn_list s2 of
                (Some e, s3) \<Rightarrow> (Inl e, s3)
              | (None, s3) \<Rightarrow> (Inr ret, s3)))"

text \<open>The decorator; \<^verbatim>\<open>wraps\<close> copies \<^verbatim>\<open>__module__\<close> to the wrapper.\<close>

definition log_exceptions_warnings ::
  "string \<Rightarrow> ('a, 'r) pyfunction \<Rightarrow> ('a, 'r) pyfunction" where
  "log_exceptions_warnings here func =
     \<lparr>fn_module = fn_module func, fn_call = wrapper here func\<rparr>"

text \<open>
  A body that issues the given warnings through \<^verbatim>\<open>warnings.warn\<close>, in order, and
  then ends with the given outcome; a warning raised as an exception ends it early.
\<close>

fun warn_all :: "warning list \<Rightarrow> world \<Rightarrow> exc option \<times> world" where
  "warn_all [] s = (None, s)"
| "warn_all (w # ws) s =
     (case warn w s of
        (Some e, s') \<Rightarrow> (Some e, s')
      | (None, s') \<Rightarrow> warn_all ws s')"

definition emitting :: "warning list \<Rightarrow> exc + 'r \<Rightarrow> world \<Rightarrow> (exc + 'r) \<times> world" where
  "emitting ws out s =
     (case warn_all ws s of
        (Some e, s') \<Rightarrow> (Inl e, s')
      | (None, s') \<Rightarrow> (out, s'))"

section \<open>The temporary file helper \<^verbatim>\<open>temp_filename\<close>\<close>

text \<open>
  The file system maps a path to the text of the file there.
  \<^verbatim>\<open>NamedTemporaryFile(delete=False)\<close> tries candidate names in turn and creates an
  empty file under the first one that is not taken; with no usable name it raises.
  \<^verbatim>\<open>os.unlink\<close> removes a file and raises when there is none.
\<close>

type_synonym path = string
type_synonym filesystem = "path \<rightharpoonup> string"

definition FileExistsError :: exc where
  "FileExistsError =
     \<lparr>exc_type = ''FileExistsError'',
      exc_args = [PInt 17, PStr ''No usable temporary file name found''],
      exc_is_Exception = True\<rparr>"

definition FileNotFoundError :: "path \<Rightarrow> exc" where
  "FileNotFoundError p =
     \<lparr>exc_type = ''FileNotFoundError'',
      exc_args = [PInt 2, PStr ''No such file or directory''],
      exc_is_Exception = True\<rparr>"

definition NamedTemporaryFile :: "path list \<Rightarrow> filesystem \<Rightarrow> exc + path \<times> filesystem" where
  "NamedTemporaryFile candidates fs =
     (case find (\<lambda>p. fs p = None) candidates of
        None \<Rightarrow> Inl FileExistsError
      | Some p \<Rightarrow> Inr (p, fs(p \<mapsto> [])))"

definition file_write :: "path \<Rightarrow> string \<Rightarrow> filesystem \<Rightarrow> filesystem" where
  "file_write p d fs = fs(p \<mapsto> (case fs p of None \<Rightarrow> d | Some old \<Rightarrow> old @ d))"

definition unlink :: "path \<Rightarrow> filesystem \<Rightarrow> exc option \<times> filesystem" where
  "unlink p fs =
     (case fs p of
        None \<Rightarrow> (Some (FileNotFoundError p), fs)
      | Some _ \<Rightarrow> (None, fs(p := None)))"

text \<open>
  The part of \<^verbatim>\<open>temp_filename(data)\<close> before the \<^verbatim>\<open>yield\<close>, with \<^verbatim>\<open>mode\<close> left at
  its default \<^verbatim>\<open>'wt'\<close>: create the file, write \<^verbatim>\<open>data\<close> when it is truthy (neither
  \<^verbatim>\<open>None\<close> nor empty), close, and yield the name.
\<close>

definition temp_filename_enter ::
  "path list \<Rightarrow> string option \<Rightarrow> filesystem \<Rightarrow> exc + path \<times> filesystem" where
  "temp_filename_enter candidates data fs =
     (case NamedTemporaryFile candidates fs of
        Inl e \<Rightarrow> Inl e
      | Inr (nm, fs1) \<Rightarrow>
          (case data of
             None \<Rightarrow> Inr (nm, fs1)
           | Some d \<Rightarrow> if d = [] then Inr (nm, fs1) else Inr (nm, file_write nm d fs1)))"

text \<open>
  \<^verbatim>\<open>with temp_filename(data) as nm: block\<close>. The block receives the name and may do
  anything to the file system. The \<^verbatim>\<open>finally\<close> clause runs \<^verbatim>\<open>os.unlink\<close> whether
  the block returned or raised; an error of \<^verbatim>\<open>os.unlink\<close> is what the statement
  raises then.
\<close>

definition temp_filename ::
  "path list \<Rightarrow> string option \<Rightarrow> (path \<Rightarrow> filesystem \<Rightarrow> (exc + 'r) \<times> filesystem)
     \<Rightarrow> filesystem \<Rightarrow> (exc + 'r) \<times> filesystem" where
  "temp_filename candidates data block fs =
     (case temp_filename_enter candidates data fs of
        Inl e \<Rightarrow> (Inl e, fs)
      | Inr (nm, fs1) \<Rightarrow>
          (case block nm fs1 of
             (r, fs2) \<Rightarrow>
               (case unlink nm fs2 of
                  (Some e, fs3) \<Rightarrow> (Inl e, fs3)
                | (None, fs3) \<Rightarrow> (r, fs3))))"

definition text_of :: "string option \<Rightarrow> string" where
  "text_of data = (case data of None \<Rightarrow> [] | Some d \<Rightarrow> d)"

section \<open>The logging-control helpers\<close>

text \<open>
  Handlers are objects: the root logger holds a list of references into a store of
  handlers. A stream handler has a stream and a level; other handlers only a level.
  \<open>disable\<close> is the process-wide threshold set by \<^verbatim>\<open>logging.disable\<close>.
\<close>

datatype stream = Stdout | Stderr | OtherStream string

datatype handler = StreamHandler stream int | OtherHandler int

record logging =
  root_handlers :: "nat list"
  handlers :: "nat \<Rightarrow> handler"
  disable :: int

definition is_console :: "handler \<Rightarrow> bool" where
  "is_console h = (case h of StreamHandler st _ \<Rightarrow> st = Stdout | OtherHandler _ \<Rightarrow> False)"

definition level_of :: "handler \<Rightarrow> int" where
  "level_of h = (case h of StreamHandler _ l \<Rightarrow> l | OtherHandler l \<Rightarrow> l)"

definition with_level :: "int \<Rightarrow> handler \<Rightarrow> handler" where
  "with_level l h = (case h of StreamHandler st _ \<Rightarrow> StreamHandler st l | OtherHandler _ \<Rightarrow> OtherHandler l)"

definition setLevel :: "nat \<Rightarrow> int \<Rightarrow> logging \<Rightarrow> logging" where
  "setLevel h l s = s\<lparr>handlers := (handlers s)(h := with_level l (handlers s h))\<rparr>"

text \<open>
  \<^verbatim>\<open>with console_logger_level(level): block\<close>. The generator looks for the first
  handler of the root logger that is a stream handler on \<^verbatim>\<open>sys.stdout\<close>, sets its
  level and yields; the statements after the \<^verbatim>\<open>yield\<close> run only when the block
  returns, since an exception of the block is raised at the \<^verbatim>\<open>yield\<close> and nothing
  catches it there. Without such a handler the block runs unchanged.
\<close>

definition console_logger_level ::
  "int \<Rightarrow> (logging \<Rightarrow> (exc + 'r) \<times> logging) \<Rightarrow> logging \<Rightarrow> (exc + 'r) \<times> logging" where
  "console_logger_level level block s =
     (case find (\<lambda>h. is_console (handlers s h)) (root_handlers s) of
        Some h \<Rightarrow>
          (let old_level = level_of (handlers s h)
           in case block (setLevel h level s) of
                (Inl e, s1) \<Rightarrow> (Inl e, s1)
              | (Inr v, s1) \<Rightarrow> (Inr v, setLevel h old_level s1))
      | None \<Rightarrow> block s)"

text \<open>\<^verbatim>\<open>with no_logging(): block\<close>, in the same way.\<close>

definition no_logging ::
  "(logging \<Rightarrow> (exc + 'r) \<times> logging) \<Rightarrow> logging \<Rightarrow> (exc + 'r) \<times> logging" where
  "no_logging block s =
     (case block (s\<lparr>disable := CRITICAL\<rparr>) of
        (Inl e, s1) \<Rightarrow> (Inl e, s1)
      | (Inr v, s1) \<Rightarrow> (Inr v, s1\<lparr>disable := NOTSET\<rparr>))"

section \<open>Scenarios\<close>

text \<open>
  Concrete inputs on which the properties below are evaluated: a path of this
  module; warnings issued by configuration code; functions that warn and return, warn
  and raise, warn twice with the same warning, raise an error without arguments,
  return silently, return the length of
  \<^verbatim>\<open>warnings.filters\<close>, or empty the filter list; states of \<^verbatim>\<open>warnings\<close> with no
  filter, with a filter that turns every warning into an error, and with a filter
  that ignores every warning; a file system with one name taken; a root logger with a
  console handler.
\<close>

definition sample_warning :: warning where
  "sample_warning =
     \<lparr>category = ConfigWarning, message = ''bad value'',
      filename = ''/home/u/cfg/parser.py'', lineno = 12\<rparr>"


definition installed_path :: string where
  "installed_path = ''/srv/app/settings_parser/util.py''"

definition quiet_world :: world where
  "quiet_world =
     \<lparr>filters = [], registry = [], onceregistry = [], capture = None,
      shown = [], issued = [], logs = []\<rparr>"

definition strict_world :: world where
  "strict_world =
     \<lparr>filters = [\<lparr>f_action = Error, f_matches = (\<lambda>w. True)\<rparr>],
      registry = [], onceregistry = [], capture = None,
      shown = [], issued = [], logs = []\<rparr>"


definition warning_body :: "(unit, int) pyfunction" where
  "warning_body =
     \<lparr>fn_module = ''settings_parser.parser'', fn_call = (\<lambda>_. emitting [sample_warning] (Inr 7))\<rparr>"


definition repeating_body :: "(unit, int) pyfunction" where
  "repeating_body =
     \<lparr>fn_module = ''settings_parser.parser'',
      fn_call = (\<lambda>_. emitting [sample_warning, sample_warning] (Inr 7))\<rparr>"

definition raising_body :: "(unit, int) pyfunction" where
  "raising_body =
     \<lparr>fn_module = ''settings_parser.parser'',
      fn_call = (\<lambda>_. emitting [sample_warning] (Inl (ConfigError [PStr ''no such section''])))\<rparr>"

definition bare_raising_body :: "(unit, int) pyfunction" where
  "bare_raising_body =
     \<lparr>fn_module = ''settings_parser.parser'',
      fn_call = (\<lambda>_. emitting [] (Inl (ConfigError [])))\<rparr>"

definition silent_body :: "(unit, int) pyfunction" where
  "silent_body =
     \<lparr>fn_module = ''settings_parser.parser'', fn_call = (\<lambda>_. emitting [] (Inr 7))\<rparr>"

definition peeking_body :: "(unit, int) pyfunction" where
  "peeking_body =
     \<lparr>fn_module = ''settings_parser.parser'',
      fn_call = (\<lambda>_ s. (Inr (int (length (filters s))), s))\<rparr>"

definition resetting_body :: "(unit, int) pyfunction" where
  "resetting_body =
     \<lparr>fn_module = ''settings_parser.parser'',
      fn_call = (\<lambda>_ s. emitting [sample_warning] (Inr 7) (s\<lparr>filters := []\<rparr>))\<rparr>"

definition busy_disk :: filesystem where
  "busy_disk = [''/tmp/tmp0'' \<mapsto> ''old'']"

definition failing_reader :: "path \<Rightarrow> filesystem \<Rightarrow> (exc + string) \<times> filesystem" where
  "failing_reader p fs = (Inl (ConfigError [PStr ''no such section'']), fs)"

definition console_world :: logging where
  "console_world =
     \<lparr>root_handlers = [1, 0],
      handlers = (\<lambda>h. if h = 0 then StreamHandler Stdout 30 else OtherHandler 0),
      disable = 0\<rparr>"

definition failing_block :: "logging \<Rightarrow> (exc + unit) \<times> logging" where
  "failing_block s = (Inl (ConfigError [PStr ''no such section'']), s)"

section \<open>Properties of the memoizing accessor\<close>

lemma cached_property_init_name_default:
  "name (cached_property_init meth None) = m_name meth"
  by (simp add: cached_property_init_def)

lemma cached_property_init_method:
  "cp_method (cached_property_init meth nm) = meth"
  by (simp add: cached_property_init_def)

text \<open>
  An error raised by the computation propagates, and nothing is stored under the
  configured name by the accessor.
\<close>

lemma cached_property_propagates_error:
  assumes raises: "m_call (cp_method cp) i (heap s) = (Inl e, h)"
  shows "cached_property_get cp (Some i) s
           = (Inl e, \<lparr>heap = h, calls = calls s @ [(m_name (cp_method cp), i)]\<rparr>)"
  using raises by (simp add: cached_property_get_def)

text \<open>
  Claim C1. Let the class bind the accessor under its configured name, let the
  instance not have that attribute yet, and let the computation return \<open>v\<close> on the
  instance. Then the first access returns \<open>v\<close>, has called the computation once with
  the instance as argument, and leaves \<open>v\<close> in the instance's own table under the
  configured name; the second access returns the same \<open>v\<close> and changes nothing, so the
  computation has been invoked exactly once over both accesses.
\<close>

theorem cached_property_computes_once:
  assumes bound: "cls (name cp) = Some (Descriptor cp)"
    and first: "heap s i (name cp) = None"
    and returns: "m_call (cp_method cp) i (heap s) = (Inr v, h)"
  shows "(let (r1, s1) = getattr_instance cls i (name cp) s;
              (r2, s2) = getattr_instance cls i (name cp) s1
          in r1 = Inr (Value v) \<and> calls s1 = calls s @ [(m_name (cp_method cp), i)]
             \<and> heap s1 i (name cp) = Some v
             \<and> r2 = Inr (Value v) \<and> s2 = s1
             \<and> calls s2 = calls s @ [(m_name (cp_method cp), i)])"
proof -
  let ?s1 = "\<lparr>heap = h(i := (h i)(name cp \<mapsto> v)),
              calls = calls s @ [(m_name (cp_method cp), i)]\<rparr>"
  have one: "getattr_instance cls i (name cp) s = (Inr (Value v), ?s1)"
    using bound first returns
    by (simp add: getattr_instance_def cached_property_get_def)
  have two: "getattr_instance cls i (name cp) ?s1 = (Inr (Value v), ?s1)"
    by (simp add: getattr_instance_def)
  show ?thesis
    by (simp add: one two)
qed

theorem cached_property_computes_once_witness:
  "(let cp = cached_property_init answer_method None;
        (r1, s1) = getattr_instance answer_class 0 ''answer'' fresh_objects;
        (r2, s2) = getattr_instance answer_class 0 ''answer'' s1
    in answer_class (name cp) = Some (Descriptor cp)
       \<and> heap fresh_objects 0 (name cp) = None
       \<and> m_call (cp_method cp) 0 (heap fresh_objects) = (Inr 42, heap fresh_objects)
       \<and> r1 = Inr (Value 42) \<and> calls s1 = [(''answer'', 0)]
       \<and> heap s1 0 ''answer'' = Some 42
       \<and> r2 = Inr (Value 42) \<and> s2 = s1 \<and> calls s2 = [(''answer'', 0)])"
proof -
  let ?cp = "cached_property_init answer_method None"
  have nm: "name ?cp = ''answer''"
    by (simp add: cached_property_init_def answer_method_def)
  have meth: "cp_method ?cp = answer_method"
    by (simp add: cached_property_init_def)
  have bound: "answer_class (name ?cp) = Some (Descriptor ?cp)"
    by (simp add: nm answer_class_def)
  have first: "heap fresh_objects 0 (name ?cp) = None"
    by (simp add: fresh_objects_def)
  have returns: "m_call (cp_method ?cp) 0 (heap fresh_objects) = (Inr 42, heap fresh_objects)"
    by (simp add: cached_property_init_def answer_method_def)
  have "(let (r1, s1) = getattr_instance answer_class 0 (name ?cp) fresh_objects;
             (r2, s2) = getattr_instance answer_class 0 (name ?cp) s1
         in r1 = Inr (Value 42)
            \<and> calls s1 = calls fresh_objects @ [(m_name (cp_method ?cp), 0)]
            \<and> heap s1 0 (name ?cp) = Some 42
            \<and> r2 = Inr (Value 42) \<and> s2 = s1
            \<and> calls s2 = calls fresh_objects @ [(m_name (cp_method ?cp), 0)])"
    using bound first returns by (rule cached_property_computes_once)
  moreover have "calls fresh_objects = []"
    by (simp add: fresh_objects_def)
  moreover have "m_name (cp_method ?cp) = ''answer''"
    by (simp add: cached_property_init_def answer_method_def)
  ultimately show ?thesis
    using bound first returns by (simp add: nm Let_def split_beta)
qed

text \<open>
  Claim C7. Reading the attribute on the owning class, with no instance, returns the
  accessor object itself and leaves the state as it was: no computation is invoked
  and no attribute table changes.
\<close>

theorem cached_property_on_class_returns_accessor:
  assumes bound: "cls a = Some (Descriptor cp)"
  shows "getattr_class cls a s = (Inr (Accessor cp), s)"
  using bound by (simp add: getattr_class_def cached_property_get_def)

theorem cached_property_on_class_returns_accessor_witness:
  "answer_class ''answer'' = Some (Descriptor (cached_property_init answer_method None))
   \<and> getattr_class answer_class ''answer'' fresh_objects
       = (Inr (Accessor (cached_property_init answer_method None)), fresh_objects)
   \<and> calls (snd (getattr_class answer_class ''answer'' fresh_objects)) = []"
proof -
  let ?cp = "cached_property_init answer_method None"
  have bound: "answer_class ''answer'' = Some (Descriptor ?cp)"
    by (simp add: answer_class_def)
  have "getattr_class answer_class ''answer'' fresh_objects = (Inr (Accessor ?cp), fresh_objects)"
    using bound by (rule cached_property_on_class_returns_accessor)
  then show ?thesis
    using bound by (simp add: fresh_objects_def)
qed

section \<open>Properties of the warnings machinery\<close>

lemma filters_warn: "filters (snd (warn w s)) = filters s"
  by (simp add: warn_def deliver_def Let_def split: action.splits option.splits)



lemma log_call_fields:
  "filters (log_call m l x s) = filters s"
  "registry (log_call m l x s) = registry s"
  "onceregistry (log_call m l x s) = onceregistry s"
  "capture (log_call m l x s) = capture s"
  "shown (log_call m l x s) = shown s"
  "issued (log_call m l x s) = issued s"
  "logs (log_call m l x s) = logs s @ [\<lparr>lr_logger = m, lr_level = l, lr_msg = x\<rparr>]"
  by (simp_all add: log_call_def)

lemma capture_scope_fields:
  "filters (capture_scope s) = \<lparr>f_action = Always, f_matches = (\<lambda>w. True)\<rparr> # filters s"
  "registry (capture_scope s) = []"
  "onceregistry (capture_scope s) = onceregistry s"
  "capture (capture_scope s) = Some []"
  "shown (capture_scope s) = shown s"
  "issued (capture_scope s) = issued s"
  "logs (capture_scope s) = logs s"
  by (simp_all add: capture_scope_def simplefilter_def catch_warnings_enter_def
      filters_mutated_def)

lemma catch_warnings_exit_fields:
  "filters (catch_warnings_exit s s1) = filters s"
  "registry (catch_warnings_exit s s1) = []"
  "onceregistry (catch_warnings_exit s s1) = onceregistry s1"
  "capture (catch_warnings_exit s s1) = capture s"
  "shown (catch_warnings_exit s s1) = shown s1"
  "issued (catch_warnings_exit s s1) = issued s1"
  "logs (catch_warnings_exit s s1) = logs s1"
  by (simp_all add: catch_warnings_exit_def filters_mutated_def)


text \<open>
  Inside the capture scope every warning is recorded, whatever the filters in place
  before said: the registry is empty, the catch-all \<^verbatim>\<open>always\<close> filter is the first to
  match, and \<^verbatim>\<open>always\<close> sets no registry entry.
\<close>

lemma warn_recorded_under_always:
  assumes front: "filters s = \<lparr>f_action = Always, f_matches = (\<lambda>w. True)\<rparr> # fs"
    and empty: "registry s = []"
    and hook: "capture s = Some l"
  shows "warn w s = (None, s\<lparr>issued := issued s @ [w], capture := Some (l @ [w])\<rparr>)"
  using front empty hook by (simp add: warn_def deliver_def)

lemma warn_all_recorded_under_always:
  assumes front: "filters s = \<lparr>f_action = Always, f_matches = (\<lambda>w. True)\<rparr> # fs"
    and empty: "registry s = []"
    and hook: "capture s = Some l"
  shows "warn_all ws s = (None, s\<lparr>issued := issued s @ ws, capture := Some (l @ ws)\<rparr>)"
  using front empty hook
proof (induction ws arbitrary: s l)
  case Nil
  then show ?case by simp
next
  case (Cons w ws)
  let ?s1 = "s\<lparr>issued := issued s @ [w], capture := Some (l @ [w])\<rparr>"
  have step: "warn w s = (None, ?s1)"
    using Cons.prems by (rule warn_recorded_under_always)
  have front1: "filters ?s1 = \<lparr>f_action = Always, f_matches = (\<lambda>w. True)\<rparr> # fs"
    using Cons.prems by simp
  have empty1: "registry ?s1 = []"
    using Cons.prems by simp
  have hook1: "capture ?s1 = Some (l @ [w])"
    by simp
  show ?case
    by (simp add: step Cons.IH [OF front1 empty1 hook1])
qed

lemma emitting_recorded_in_scope:
  "emitting ws out (capture_scope s)
     = (out, (capture_scope s)\<lparr>issued := issued s @ ws, capture := Some ws\<rparr>)"
proof -
  note scope = capture_scope_fields [of s]
  show ?thesis
    by (simp add: emitting_def
        warn_all_recorded_under_always [OF scope(1) scope(2) scope(4)] scope(6))
qed

lemma filters_warn_all: "filters (snd (warn_all ws s)) = filters s"
proof (induction ws arbitrary: s)
  case Nil
  show ?case by simp
next
  case (Cons w ws)
  obtain r s2 where step: "warn w s = (r, s2)"
    by (cases "warn w s")
  have f2: "filters s2 = filters s"
    using filters_warn [of w s] step by simp
  show ?case
  proof (cases r)
    case None
    then show ?thesis using step Cons.IH [of s2] f2 by simp
  next
    case (Some e)
    then show ?thesis using step f2 by simp
  qed
qed

lemma filters_emitting: "filters (snd (emitting ws out s)) = filters s"
proof -
  obtain r s2 where run: "warn_all ws s = (r, s2)"
    by (cases "warn_all ws s")
  have "filters s2 = filters s"
    using filters_warn_all [of ws s] run by simp
  then show ?thesis
    using run by (cases r) (simp_all add: emitting_def)
qed

section \<open>Properties of the loop over the recorded warnings\<close>


lemma filters_log_and_reissue: "filters (snd (log_and_reissue here m ws s)) = filters s"
proof (induction ws arbitrary: s)
  case Nil
  show ?case by simp
next
  case (Cons w ws)
  let ?s1 = "log_call m WARNING (PStr (compose_message w)) s"
  obtain r s2 where step: "warn (reissued here w) ?s1 = (r, s2)"
    by (cases "warn (reissued here w) ?s1")
  have f2: "filters s2 = filters s"
    using filters_warn [of "reissued here w" ?s1] step by (simp add: log_call_fields)
  show ?case
  proof (cases r)
    case None
    then show ?thesis using step Cons.IH [of s2] f2 by simp
  next
    case (Some e)
    then show ?thesis using step f2 by simp
  qed
qed


section \<open>Properties of the diagnostics-capturing wrapper\<close>

text \<open>Calling the decorated function is calling \<open>wrapper\<close> on the original one.\<close>

lemma log_exceptions_warnings_call:
  "fn_call (log_exceptions_warnings here f) args s = wrapper here f args s
   \<and> fn_module (log_exceptions_warnings here f) = fn_module f"
  by (simp add: log_exceptions_warnings_def)

lemma wrapper_returning:
  assumes returns: "fn_call f args (capture_scope s) = (Inr v, s1)"
  shows "wrapper here f args s
           = (case log_and_reissue here (fn_module f) (recorded s1) (catch_warnings_exit s s1) of
                (Some e, s3) \<Rightarrow> (Inl e, s3)
              | (None, s3) \<Rightarrow> (Inr v, s3))"
  using returns by (simp add: wrapper_def Let_def)

text \<open>
  Claim C6. As stated the claim fails: a function that returns the length of
  \<^verbatim>\<open>warnings.filters\<close> returns normally and warns of nothing, yet called on a state
  with no filter it returns 0 directly and 1 through the wrapper, which has put the
  catch-all filter in front of the list.
\<close>

theorem wrapped_result_differs_for_filter_reader:
  "fst (fn_call peeking_body () quiet_world) = Inr 0
   \<and> recorded (snd (fn_call peeking_body () (capture_scope quiet_world))) = []
   \<and> fst (wrapper installed_path peeking_body () quiet_world) = Inr 1
   \<and> fst (wrapper installed_path peeking_body () quiet_world)
       \<noteq> fst (fn_call peeking_body () quiet_world)"
proof -
  have direct: "fst (fn_call peeking_body () quiet_world) = Inr 0"
    by (simp add: peeking_body_def quiet_world_def)
  have bare: "filters quiet_world = []"
    by (simp add: quiet_world_def)
  have inside: "fn_call peeking_body () (capture_scope quiet_world)
                  = (Inr 1, capture_scope quiet_world)"
    by (simp add: peeking_body_def capture_scope_fields bare)
  have silent: "recorded (capture_scope quiet_world) = []"
    by (simp add: recorded_def capture_scope_fields)
  have wrapped: "fst (wrapper installed_path peeking_body () quiet_world) = Inr 1"
    by (simp add: wrapper_returning [OF inside] silent)
  show ?thesis
    by (simp add: direct inside silent wrapped)
qed

text \<open>
  Claim C6, amended. Let the value that the function returns not depend on the
  filter list, the registry or the hook of \<^verbatim>\<open>warnings\<close>; let the function return
  normally; and let it leave nothing in the recording list. Then the wrapper returns
  exactly what the direct call returns, and it adds no call to any logger and no call
  of \<^verbatim>\<open>warnings.warn\<close> to what the function did itself.
\<close>

theorem wrapper_transparent_when_silent:
  assumes indep: "\<And>flt reg cap.
      fst (fn_call f args (s\<lparr>filters := flt, registry := reg, capture := cap\<rparr>))
        = fst (fn_call f args s)"
    and returns: "fst (fn_call f args s) = Inr v"
    and silent: "recorded (snd (fn_call f args (capture_scope s))) = []"
  shows "fst (wrapper here f args s) = fst (fn_call f args s)
         \<and> logs (snd (wrapper here f args s)) = logs (snd (fn_call f args (capture_scope s)))
         \<and> issued (snd (wrapper here f args s)) = issued (snd (fn_call f args (capture_scope s)))"
proof -
  obtain r s1 where inside: "fn_call f args (capture_scope s) = (r, s1)"
    by (cases "fn_call f args (capture_scope s)")
  have scope: "capture_scope s
                 = s\<lparr>filters := \<lparr>f_action = Always, f_matches = (\<lambda>w. True)\<rparr> # filters s,
                      registry := [], capture := Some []\<rparr>"
    by (simp add: capture_scope_def simplefilter_def catch_warnings_enter_def
        filters_mutated_def)
  have "fst (fn_call f args (capture_scope s)) = fst (fn_call f args s)"
    unfolding scope by (rule indep)
  then have r: "r = Inr v"
    using inside returns by simp
  have none: "recorded s1 = []"
    using silent inside by simp
  have "wrapper here f args s = (Inr v, catch_warnings_exit s s1)"
    using inside r by (simp add: wrapper_returning none)
  then show ?thesis
    by (simp add: returns inside catch_warnings_exit_fields)
qed

theorem wrapper_transparent_when_silent_witness:
  "fst (fn_call silent_body () quiet_world) = Inr 7
   \<and> recorded (snd (fn_call silent_body () (capture_scope quiet_world))) = []
   \<and> fst (wrapper installed_path silent_body () quiet_world) = Inr 7
   \<and> logs (snd (wrapper installed_path silent_body () quiet_world)) = []
   \<and> issued (snd (wrapper installed_path silent_body () quiet_world)) = []"
proof -
  have indep: "fst (fn_call silent_body () (quiet_world\<lparr>filters := flt, registry := reg,
                                                         capture := cap\<rparr>))
                 = fst (fn_call silent_body () quiet_world)" for flt reg cap
    by (simp add: silent_body_def emitting_def)
  have returns: "fst (fn_call silent_body () quiet_world) = Inr 7"
    by (simp add: silent_body_def emitting_def)
  have inside: "fn_call silent_body () (capture_scope quiet_world)
                  = (Inr 7, capture_scope quiet_world)"
    by (simp add: silent_body_def emitting_def)
  have silent: "recorded (snd (fn_call silent_body () (capture_scope quiet_world))) = []"
    by (simp add: inside recorded_def capture_scope_fields)
  have blank: "logs quiet_world = []" "issued quiet_world = []"
    by (simp_all add: quiet_world_def)
  have quiet: "logs (snd (fn_call silent_body () (capture_scope quiet_world))) = []"
    "issued (snd (fn_call silent_body () (capture_scope quiet_world))) = []"
    by (simp_all add: inside capture_scope_fields blank)
  from wrapper_transparent_when_silent [OF indep returns silent, of installed_path]
  have "fst (wrapper installed_path silent_body () quiet_world) = Inr 7
        \<and> logs (snd (wrapper installed_path silent_body () quiet_world)) = []
        \<and> issued (snd (wrapper installed_path silent_body () quiet_world)) = []"
    by (simp only: returns quiet)
  with returns silent show ?thesis
    by blast
qed




text \<open>
  Claim C3. Let the wrapped function raise \<open>e\<close>, an exception derived from
  \<^verbatim>\<open>Exception\<close> whose \<^verbatim>\<open>args\<close> start with \<open>a\<close>. Then the wrapper raises \<open>e\<close> itself,
  and the logger named after the function's module receives exactly one more call, of
  error severity, with message \<open>a\<close>.
\<close>

theorem wrapper_logs_and_reraises:
  assumes raises: "fn_call f args (capture_scope s) = (Inl e, s1)"
    and caught: "exc_is_Exception e"
    and first: "exc_args e = a # as"
  shows "fst (wrapper here f args s) = Inl e
         \<and> logs (snd (wrapper here f args s))
             = logs s1 @ [\<lparr>lr_logger = fn_module f, lr_level = ERROR, lr_msg = a\<rparr>]"
  using raises caught first
  by (simp add: wrapper_def Let_def log_call_fields catch_warnings_exit_fields)

theorem wrapper_logs_and_reraises_witness:
  "fst (wrapper installed_path raising_body () quiet_world)
     = Inl (ConfigError [PStr ''no such section''])
   \<and> logs (snd (wrapper installed_path raising_body () quiet_world))
       = [\<lparr>lr_logger = ''settings_parser.parser'', lr_level = 40,
           lr_msg = PStr ''no such section''\<rparr>]"
proof -
  let ?e = "ConfigError [PStr ''no such section'']"
  let ?s1 = "(capture_scope quiet_world)\<lparr>issued := issued quiet_world @ [sample_warning],
                                           capture := Some [sample_warning]\<rparr>"
  have raises: "fn_call raising_body () (capture_scope quiet_world) = (Inl ?e, ?s1)"
    by (simp add: raising_body_def emitting_recorded_in_scope)
  have caught: "exc_is_Exception ?e"
    by (simp add: ConfigError_def)
  have first: "exc_args ?e = PStr ''no such section'' # []"
    by (simp add: ConfigError_def)
  have blank: "logs ?s1 = []"
    by (simp add: capture_scope_fields quiet_world_def)
  have modname: "fn_module raising_body = ''settings_parser.parser''"
    by (simp add: raising_body_def)
  from wrapper_logs_and_reraises [OF raises caught first, of installed_path]
  show ?thesis
    by (simp only: blank modname ERROR_def append_Nil)
qed

text \<open>
  Claim C4. Let the wrapped function raise \<open>e\<close>, an exception derived from
  \<^verbatim>\<open>Exception\<close> whose \<^verbatim>\<open>args\<close> are empty. Then the wrapper raises the
  \<^verbatim>\<open>IndexError\<close> of the failed \<^verbatim>\<open>exc.args[0]\<close>, which is not \<open>e\<close>, and logs nothing.
\<close>

theorem wrapper_masks_bare_error:
  assumes raises: "fn_call f args (capture_scope s) = (Inl e, s1)"
    and caught: "exc_is_Exception e"
    and bare: "exc_args e = []"
  shows "fst (wrapper here f args s) = Inl IndexError_tuple
         \<and> fst (wrapper here f args s) \<noteq> Inl e
         \<and> logs (snd (wrapper here f args s)) = logs s1"
proof -
  have "exc_args IndexError_tuple \<noteq> exc_args e"
    by (simp add: bare IndexError_tuple_def)
  then have "IndexError_tuple \<noteq> e"
    by auto
  then show ?thesis
    using raises caught bare
    by (simp add: wrapper_def Let_def catch_warnings_exit_fields)
qed

theorem wrapper_masks_bare_error_witness:
  "fst (wrapper installed_path bare_raising_body () quiet_world) = Inl IndexError_tuple
   \<and> fst (wrapper installed_path bare_raising_body () quiet_world) \<noteq> Inl (ConfigError [])
   \<and> logs (snd (wrapper installed_path bare_raising_body () quiet_world)) = []"
proof -
  have raises: "fn_call bare_raising_body () (capture_scope quiet_world)
                  = (Inl (ConfigError []), capture_scope quiet_world)"
    by (simp add: bare_raising_body_def emitting_def)
  have caught: "exc_is_Exception (ConfigError [])"
    by (simp add: ConfigError_def)
  have bare: "exc_args (ConfigError []) = []"
    by (simp add: ConfigError_def)
  have unlogged: "logs (capture_scope quiet_world) = []"
    by (simp add: capture_scope_fields quiet_world_def)
  from wrapper_masks_bare_error [OF raises caught bare, of installed_path]
  have masked: "fst (wrapper installed_path bare_raising_body () quiet_world)
                  = Inl IndexError_tuple"
    and other: "fst (wrapper installed_path bare_raising_body () quiet_world)
                  \<noteq> Inl (ConfigError [])"
    and same: "logs (snd (wrapper installed_path bare_raising_body () quiet_world))
                 = logs (capture_scope quiet_world)"
    by blast+
  show ?thesis
  proof (intro conjI)
    show "fst (wrapper installed_path bare_raising_body () quiet_world) = Inl IndexError_tuple"
      by (rule masked)
    show "fst (wrapper installed_path bare_raising_body () quiet_world) \<noteq> Inl (ConfigError [])"
      by (rule other)
    show "logs (snd (wrapper installed_path bare_raising_body () quiet_world)) = []"
      by (rule trans [OF same unlogged])
  qed
qed




text \<open>
  What the provisos exclude. A function that issues the same warning twice has both
  recorded and both logged, but under the default action the second one issued again
  from line 85 finds its entry in the registry of this module, and the caller is
  shown one. With a caller whose filters turn warnings into errors the first warning
  issued again is raised out of the wrapper.
\<close>

lemma repeated_warning_shown_once:
  "recorded (snd (fn_call repeating_body () (capture_scope quiet_world)))
     = [sample_warning, sample_warning]
   \<and> fst (wrapper installed_path repeating_body () quiet_world) = Inr 7
   \<and> logs (snd (wrapper installed_path repeating_body () quiet_world))
       = [\<lparr>lr_logger = ''settings_parser.parser'', lr_level = WARNING,
           lr_msg = PStr (compose_message sample_warning)\<rparr>,
          \<lparr>lr_logger = ''settings_parser.parser'', lr_level = WARNING,
           lr_msg = PStr (compose_message sample_warning)\<rparr>]
   \<and> shown (snd (wrapper installed_path repeating_body () quiet_world))
       = [reissued installed_path sample_warning]"
proof -
  let ?r = "reissued installed_path sample_warning"
  let ?s1 = "(capture_scope quiet_world)
               \<lparr>issued := [sample_warning, sample_warning],
                capture := Some [sample_warning, sample_warning]\<rparr>"
  have caller: "filters quiet_world = []" "capture quiet_world = None"
    "issued quiet_world = []" "shown quiet_world = []" "logs quiet_world = []"
    by (simp_all add: quiet_world_def)
  have inside: "fn_call repeating_body () (capture_scope quiet_world) = (Inr 7, ?s1)"
    by (simp add: repeating_body_def emitting_recorded_in_scope caller)
  have twice: "recorded ?s1 = [sample_warning, sample_warning]"
    by (simp add: recorded_def)
  have modname: "fn_module repeating_body = ''settings_parser.parser''"
    by (simp add: repeating_body_def)
  let ?m = "''settings_parser.parser''"
  let ?key = "(filename ?r, message ?r, category ?r, lineno ?r)"
  let ?s2 = "log_call ?m WARNING (PStr (compose_message sample_warning))
               (catch_warnings_exit quiet_world ?s1)"
  let ?s3 = "?s2\<lparr>issued := issued ?s2 @ [?r], registry := [?key], shown := [?r]\<rparr>"
  have one: "warn ?r ?s2 = (None, ?s3)"
    by (simp add: warn_def deliver_def log_call_def catch_warnings_exit_def
        filters_mutated_def caller capture_scope_fields)
  let ?s4 = "log_call ?m WARNING (PStr (compose_message sample_warning)) ?s3"
  have two: "warn ?r ?s4 = (None, ?s4\<lparr>issued := issued ?s4 @ [?r]\<rparr>)"
    by (simp add: warn_def log_call_def)
  have run: "wrapper installed_path repeating_body () quiet_world
               = (Inr 7, ?s4\<lparr>issued := issued ?s4 @ [?r]\<rparr>)"
    unfolding wrapper_returning [OF inside] twice modname
    by (simp add: one two)
  show ?thesis
    by (simp add: inside twice run log_call_def catch_warnings_exit_def filters_mutated_def
        capture_scope_fields caller)
qed

lemma reissued_warning_raised_by_strict_caller:
  "fst (wrapper installed_path warning_body () strict_world)
     = Inl (warning_exc (reissued installed_path sample_warning))
   \<and> shown (snd (wrapper installed_path warning_body () strict_world)) = []"
proof -
  let ?r = "reissued installed_path sample_warning"
  let ?s1 = "(capture_scope strict_world)
               \<lparr>issued := [sample_warning], capture := Some [sample_warning]\<rparr>"
  have caller: "filters strict_world = [\<lparr>f_action = Error, f_matches = (\<lambda>w. True)\<rparr>]"
    "capture strict_world = None" "issued strict_world = []" "shown strict_world = []"
    by (simp_all add: strict_world_def)
  have inside: "fn_call warning_body () (capture_scope strict_world) = (Inr 7, ?s1)"
    by (simp add: warning_body_def emitting_recorded_in_scope caller)
  have one: "recorded ?s1 = [sample_warning]"
    by (simp add: recorded_def)
  let ?s2 = "log_call (fn_module warning_body) WARNING (PStr (compose_message sample_warning))
               (catch_warnings_exit strict_world ?s1)"
  have raised: "warn ?r ?s2 = (Some (warning_exc ?r), ?s2\<lparr>issued := issued ?s2 @ [?r]\<rparr>)"
    by (simp add: warn_def log_call_fields catch_warnings_exit_fields caller)
  have run: "wrapper installed_path warning_body () strict_world
               = (Inl (warning_exc ?r), ?s2\<lparr>issued := issued ?s2 @ [?r]\<rparr>)"
    unfolding wrapper_returning [OF inside] one
    by (simp add: raised)
  show ?thesis
    by (simp add: run log_call_fields catch_warnings_exit_fields capture_scope_fields caller)
qed

text \<open>
  Claim C10. Inside the capture scope the filter list is the one in place on entry
  with the catch-all \<^verbatim>\<open>always\<close> filter in front; after the call the filter list is the
  one in place on entry, whatever the wrapped function did to it and however the call
  ended.
\<close>

theorem wrapper_restores_filters:
  "filters (capture_scope s) = \<lparr>f_action = Always, f_matches = (\<lambda>w. True)\<rparr> # filters s
   \<and> filters (snd (wrapper here f args s)) = filters s"
proof -
  obtain r s1 where body: "fn_call f args (capture_scope s) = (r, s1)"
    by (cases "fn_call f args (capture_scope s)")
  have ex: "filters (catch_warnings_exit s s1) = filters s"
    by (simp add: catch_warnings_exit_fields)
  have "filters (snd (wrapper here f args s)) = filters s"
  proof (cases r)
    case (Inl e)
    then show ?thesis
      using body ex
      by (simp add: wrapper_def Let_def log_call_fields split: list.splits)
  next
    case (Inr v)
    obtain r3 s3 where loop:
      "log_and_reissue here (fn_module f) (recorded s1) (catch_warnings_exit s s1) = (r3, s3)"
      by (cases "log_and_reissue here (fn_module f) (recorded s1) (catch_warnings_exit s s1)")
    have "filters s3 = filters s"
      using filters_log_and_reissue
              [of here "fn_module f" "recorded s1" "catch_warnings_exit s s1"] loop ex
      by simp
    then show ?thesis
      using Inr body loop by (simp add: wrapper_def Let_def split: option.splits)
  qed
  then show ?thesis
    by (simp add: capture_scope_fields)
qed

theorem wrapper_restores_filters_witness:
  "filters (snd (fn_call resetting_body () (capture_scope strict_world))) = []
   \<and> filters (snd (wrapper installed_path resetting_body () strict_world))
       = [\<lparr>f_action = Error, f_matches = (\<lambda>w. True)\<rparr>]"
proof -
  have inside: "filters (snd (fn_call resetting_body () (capture_scope strict_world))) = []"
    by (simp add: resetting_body_def filters_emitting)
  from wrapper_restores_filters [of strict_world installed_path resetting_body "()"]
  have "filters (snd (wrapper installed_path resetting_body () strict_world))
          = filters strict_world"
    by blast
  then show ?thesis
    using inside by (simp add: strict_world_def)
qed

section \<open>Properties of the temporary file helper\<close>

lemma NamedTemporaryFile_usable:
  assumes usable: "find (\<lambda>p. fs p = None) candidates = Some p"
  shows "NamedTemporaryFile candidates fs = Inr (p, fs(p \<mapsto> []))"
  using usable by (simp add: NamedTemporaryFile_def)

lemma temp_filename_enter_usable:
  assumes usable: "find (\<lambda>p. fs p = None) candidates = Some p"
  shows "temp_filename_enter candidates data fs = Inr (p, fs(p \<mapsto> text_of data))"
proof (cases data)
  case None
  then show ?thesis
    by (simp add: temp_filename_enter_def NamedTemporaryFile_usable [OF usable] text_of_def)
next
  case (Some d)
  then show ?thesis
    by (simp add: temp_filename_enter_def NamedTemporaryFile_usable [OF usable] text_of_def
        file_write_def)
qed

text \<open>
  Claim C8. Let \<open>p\<close> be the first candidate name that is not taken. Then \<open>p\<close> names
  no file beforehand; the helper yields \<open>p\<close> with a file there that holds the given
  text (the empty text when none is given); the block runs on that file system; and
  when the statement is left, whether the block returned or raised, no file is at
  \<open>p\<close>. Had the block removed the file itself, \<^verbatim>\<open>os.unlink\<close> raises.
\<close>

theorem temp_filename_scoped_file:
  assumes usable: "find (\<lambda>p. fs p = None) candidates = Some p"
  shows "fs p = None
         \<and> temp_filename_enter candidates data fs = Inr (p, fs(p \<mapsto> text_of data))
         \<and> temp_filename candidates data block fs
             = (case block p (fs(p \<mapsto> text_of data)) of
                  (r, fs2) \<Rightarrow>
                    (case fs2 p of None \<Rightarrow> Inl (FileNotFoundError p) | Some _ \<Rightarrow> r,
                     fs2(p := None)))
         \<and> snd (temp_filename candidates data block fs) p = None"
proof -
  have new: "fs p = None"
    using usable by (auto simp: find_Some_iff)
  have enter: "temp_filename_enter candidates data fs = Inr (p, fs(p \<mapsto> text_of data))"
    using usable by (rule temp_filename_enter_usable)
  obtain r fs2 where body: "block p (fs(p \<mapsto> text_of data)) = (r, fs2)"
    by (cases "block p (fs(p \<mapsto> text_of data))")
  have run: "temp_filename candidates data block fs
               = (case fs2 p of None \<Rightarrow> Inl (FileNotFoundError p) | Some _ \<Rightarrow> r, fs2(p := None))"
    by (cases "fs2 p") (simp_all add: temp_filename_def enter body unlink_def fun_upd_idem)
  show ?thesis
    by (simp add: new enter run body)
qed

theorem temp_filename_scoped_file_witness:
  "find (\<lambda>p. busy_disk p = None) [''/tmp/tmp0'', ''/tmp/tmp1''] = Some ''/tmp/tmp1''
   \<and> temp_filename_enter [''/tmp/tmp0'', ''/tmp/tmp1''] (Some ''[main]'') busy_disk
       = Inr (''/tmp/tmp1'', busy_disk(''/tmp/tmp1'' \<mapsto> ''[main]''))
   \<and> fst (temp_filename [''/tmp/tmp0'', ''/tmp/tmp1''] (Some ''[main]'') failing_reader busy_disk)
       = Inl (ConfigError [PStr ''no such section''])
   \<and> snd (temp_filename [''/tmp/tmp0'', ''/tmp/tmp1''] (Some ''[main]'') failing_reader busy_disk)
         ''/tmp/tmp1'' = None"
proof -
  have usable: "find (\<lambda>p. busy_disk p = None) [''/tmp/tmp0'', ''/tmp/tmp1''] = Some ''/tmp/tmp1''"
    by (simp add: busy_disk_def)
  from temp_filename_scoped_file [OF usable, of "Some ''[main]''" failing_reader]
  show ?thesis
    using usable by (simp add: text_of_def failing_reader_def)
qed

section \<open>Properties of the logging-control helpers\<close>

lemma console_logger_level_restored_on_return:
  assumes console: "find (\<lambda>h. is_console (handlers s h)) (root_handlers s) = Some h"
    and returns: "block (setLevel h level s) = (Inr v, s1)"
  shows "level_of (handlers (snd (console_logger_level level block s)) h) = level_of (handlers s h)"
  using console returns
  by (simp add: console_logger_level_def Let_def setLevel_def with_level_def level_of_def
      split: handler.splits)

lemma no_logging_enables_on_return:
  assumes returns: "block (s\<lparr>disable := CRITICAL\<rparr>) = (Inr v, s1)"
  shows "disable (snd (no_logging block s)) = NOTSET"
  using returns by (simp add: no_logging_def)

text \<open>
  Claim C9. The code at a block that raises: the console handler, at level 30
  before, is left at the overriding level 10 by \<^verbatim>\<open>console_logger_level\<close>, and
  \<^verbatim>\<open>no_logging\<close> leaves logging disabled up to \<^verbatim>\<open>CRITICAL\<close>. Neither helper has the
  \<^verbatim>\<open>try\<close>/\<^verbatim>\<open>finally\<close> that \<^verbatim>\<open>temp_filename\<close> has around its \<^verbatim>\<open>yield\<close>.
\<close>

theorem logging_helpers_not_restored_on_error:
  "level_of (handlers console_world 0) = 30
   \<and> fst (console_logger_level 10 failing_block console_world)
       = Inl (ConfigError [PStr ''no such section''])
   \<and> level_of (handlers (snd (console_logger_level 10 failing_block console_world)) 0) = 10
   \<and> disable console_world = NOTSET
   \<and> disable (snd (no_logging failing_block console_world)) = CRITICAL"
  by (simp add: console_logger_level_def no_logging_def failing_block_def console_world_def
      is_console_def level_of_def setLevel_def with_level_def NOTSET_def CRITICAL_def)

end
